theory Spec2Isabelle
  imports Complex_Main
begin

section \<open>Python values the inference application handles\<close>

text \<open>
  An exception object, as far as the application looks at it: its class name and the
  text \<open>str(e)\<close> gives. The type stands for instances of \<open>Exception\<close>, the class both
  \<open>try\<close> blocks of \<open>app.py\<close> catch.
\<close>

datatype py_exn = PyException (exn_class: string) (exn_str: string)

text \<open>\<open>fastapi.HTTPException(status_code=..., detail=...)\<close>.\<close>

record http_exception =
  status_code :: nat
  detail :: string

text \<open>
  How a request handler ends: it returns a value, it raises an \<open>HTTPException\<close> (the
  framework answers with that status), or another exception leaves it unhandled.
\<close>

datatype 'a handler_exit = Return 'a | Raise http_exception | Unhandled py_exn

text \<open>
  The object \<open>joblib.load\<close> yields is opaque to the application, which only calls its
  \<open>predict\<close> and \<open>predict_proba\<close> methods on a two-dimensional array (a list of rows) and
  converts the first predicted label with \<open>int\<close>. Each call returns or raises. The type
  \<open>'f\<close> is the float of the feature and probability lists, \<open>'l\<close> the element type of the
  label array; \<open>label_int\<close> is Python's \<open>int(...)\<close> on such an element.
  \<open>n_features_in\<close> and \<open>n_classes\<close> are the attributes of a fitted classifier; the
  application never reads them.
\<close>

record ('f, 'l) classifier =
  n_features_in :: nat
  n_classes :: nat
  predict_method :: "'f list list \<Rightarrow> py_exn + 'l list"
  predict_proba_method :: "'f list list \<Rightarrow> py_exn + 'f list list"
  label_int :: "'l \<Rightarrow> py_exn + int"

text \<open>\<open>class PredictionRequest(BaseModel)\<close> and \<open>class PredictionResponse(BaseModel)\<close>.\<close>

record 'f prediction_request =
  features :: "'f list"

record 'f prediction_response =
  prediction :: int
  probability :: "'f list"

definition PredictionResponse :: "int \<Rightarrow> 'f list \<Rightarrow> 'f prediction_response" where
  "PredictionResponse p ps = \<lparr>prediction = p, probability = ps\<rparr>"

text \<open>
  The process state: the module-level variable \<open>model\<close> (\<open>None\<close> until a load succeeds),
  the lines printed so far, and the paths handed to \<open>joblib.load\<close> so far.
\<close>

record ('f, 'l) app_state =
  model :: "('f, 'l) classifier option"
  printed :: "string list"
  load_calls :: "string list"

definition initial_state :: "('f, 'l) app_state" where
  "initial_state = \<lparr>model = None, printed = [], load_calls = []\<rparr>"

section \<open>Sequencing statements that may raise\<close>

text \<open>
  \<open>bind_exn x f\<close> runs \<open>f\<close> on the value of \<open>x\<close>, unless \<open>x\<close> raised: then the exception
  goes on and \<open>f\<close> is not run.
\<close>

definition bind_exn :: "('e + 'a) \<Rightarrow> ('a \<Rightarrow> 'e + 'b) \<Rightarrow> 'e + 'b" where
  "bind_exn x f = (case x of Inl e \<Rightarrow> Inl e | Inr v \<Rightarrow> f v)"

section \<open>numpy operations of the handler\<close>

text \<open>\<open>np.array(xs).reshape(1, -1)\<close>: one row holding the elements of \<open>xs\<close> in order.\<close>

definition reshape_row :: "'f list \<Rightarrow> 'f list list" where
  "reshape_row xs = [xs]"

text \<open>\<open>a[0]\<close> on an array: its first element, or \<open>IndexError\<close> when it has none.\<close>

fun getitem0 :: "'a list \<Rightarrow> py_exn + 'a" where
  "getitem0 [] =
     Inl (PyException ''IndexError'' ''index 0 is out of bounds for axis 0 with size 0'')"
| "getitem0 (x # xs) = Inr x"

text \<open>\<open>row.tolist()\<close> on a one-dimensional array.\<close>

definition tolist :: "'f list \<Rightarrow> 'f list" where
  "tolist row = row"

section \<open>The application: \<open>ai/src/inference/app.py\<close>\<close>

text \<open>
  \<open>load_model\<close>, the startup hook. \<open>joblib_load\<close> is what \<open>joblib.load\<close> does on a path in
  the file system the process starts in. The result is \<open>Inl e\<close> if an exception leaves
  the hook.
\<close>

definition model_path :: string where
  "model_path = ''/opt/ml/model/model.joblib''"

definition load_model ::
  "(string \<Rightarrow> py_exn + ('f, 'l) classifier) \<Rightarrow> ('f, 'l) app_state \<Rightarrow> py_exn + ('f, 'l) app_state"
where
  "load_model joblib_load st =
     (let st1 = st\<lparr>load_calls := load_calls st @ [model_path]\<rparr> in
      case joblib_load model_path of
        Inr m \<Rightarrow>
          Inr (st1\<lparr>model := Some m, printed := printed st1 @ [''Model loaded successfully'']\<rparr>)
      | Inl e \<Rightarrow>
          Inr (st1\<lparr>printed := printed st1 @
                 [''Warning: Could not load model: '' @ exn_str e,
                  ''Using dummy model for testing'']\<rparr>))"

text \<open>\<open>GET /ping\<close>.\<close>

definition health_check ::
  "('f, 'l) app_state \<Rightarrow> (string \<times> string) list handler_exit \<times> ('f, 'l) app_state"
where
  "health_check st =
     (if model st = None
      then (Raise \<lparr>status_code = 503, detail = ''Model not loaded''\<rparr>, st)
      else (Return [(''status'', ''healthy'')], st))"

text \<open>
  The two model calls of the \<open>try\<close> block, in the order the source makes them:
  \<open>int(model.predict(features)[0])\<close>, then \<open>model.predict_proba(features)[0].tolist()\<close>.
  \<open>Inl e\<close> when one of them raises \<open>e\<close>; the later ones are then not made.
\<close>

definition model_call ::
  "('f, 'l) classifier \<Rightarrow> 'f list list \<Rightarrow> py_exn + (int \<times> 'f list)"
where
  "model_call m feats =
     bind_exn (predict_method m feats) (\<lambda>labels.
     bind_exn (getitem0 labels) (\<lambda>label.
     bind_exn (label_int m label) (\<lambda>label_value.
     bind_exn (predict_proba_method m feats) (\<lambda>proba.
     bind_exn (getitem0 proba) (\<lambda>row.
     Inr (label_value, tolist row))))))"

text \<open>The body of the \<open>try\<close> block of \<open>predict\<close>; \<open>Inl e\<close> when a statement raises \<open>e\<close>.\<close>

definition predict_try ::
  "('f, 'l) classifier \<Rightarrow> 'f prediction_request \<Rightarrow> py_exn + 'f prediction_response"
where
  "predict_try m request =
     bind_exn (model_call m (reshape_row (features request))) (\<lambda>(label_value, probabilities).
     Inr (PredictionResponse label_value probabilities))"

text \<open>\<open>POST /invocations\<close>.\<close>

definition predict ::
  "('f, 'l) app_state \<Rightarrow> 'f prediction_request \<Rightarrow>
     'f prediction_response handler_exit \<times> ('f, 'l) app_state"
where
  "predict st request =
     (case model st of
        None \<Rightarrow> (Raise \<lparr>status_code = 503, detail = ''Model not loaded''\<rparr>, st)
      | Some m \<Rightarrow>
          (case predict_try m request of
             Inr response \<Rightarrow> (Return response, st)
           | Inl e \<Rightarrow>
               (Raise \<lparr>status_code = 400, detail = ''Prediction error: '' @ exn_str e\<rparr>, st)))"

text \<open>\<open>GET /\<close>.\<close>

definition root_handler ::
  "('f, 'l) app_state \<Rightarrow> (string \<times> string) list handler_exit \<times> ('f, 'l) app_state"
where
  "root_handler st =
     (Return [(''message'', ''SageMaker Inference API''), (''docs'', ''/docs'')], st)"

section \<open>The process: startup, then requests\<close>

text \<open>
  The routes the decorators register, and what the three handlers return.
\<close>

datatype 'f http_request = GetPing | PostInvocations "'f prediction_request" | GetRoot

datatype 'f http_body = JsonDict "(string \<times> string) list" | Prediction "'f prediction_response"

definition dispatch ::
  "('f, 'l) app_state \<Rightarrow> 'f http_request \<Rightarrow> 'f http_body handler_exit \<times> ('f, 'l) app_state"
where
  "dispatch st r =
     (case r of
        GetPing \<Rightarrow> apfst (map_handler_exit JsonDict) (health_check st)
      | PostInvocations request \<Rightarrow> apfst (map_handler_exit Prediction) (predict st request)
      | GetRoot \<Rightarrow> apfst (map_handler_exit JsonDict) (root_handler st))"

fun serve_all ::
  "('f, 'l) app_state \<Rightarrow> 'f http_request list \<Rightarrow>
     'f http_body handler_exit list \<times> ('f, 'l) app_state"
where
  "serve_all st [] = ([], st)"
| "serve_all st (r # rs) =
     (case dispatch st r of
        (out, st') \<Rightarrow> (case serve_all st' rs of (outs, st'') \<Rightarrow> (out # outs, st'')))"

text \<open>
  One process lifetime: the startup hook runs once on the initial state, before any
  request; an exception leaving it ends the process (\<open>Inl\<close>); otherwise the requests are
  served in turn.
\<close>

definition process_run ::
  "(string \<Rightarrow> py_exn + ('f, 'l) classifier) \<Rightarrow> 'f http_request list \<Rightarrow>
     py_exn + ('f http_body handler_exit list \<times> ('f, 'l) app_state)"
where
  "process_run joblib_load requests =
     (case load_model joblib_load initial_state of
        Inl e \<Rightarrow> Inl e
      | Inr st \<Rightarrow> Inr (serve_all st requests))"

section \<open>The training script: \<open>ai/src/sagemaker/train_script.py\<close>\<close>

text \<open>
  \<open>os.path.join(a, b)\<close> on POSIX: an absolute \<open>b\<close> replaces \<open>a\<close>; otherwise \<open>b\<close> is appended,
  after a separator unless \<open>a\<close> is empty or already ends with one.
\<close>

definition os_path_join :: "string \<Rightarrow> string \<Rightarrow> string" where
  "os_path_join a b =
     (if b \<noteq> [] \<and> hd b = CHR ''/'' then b
      else if a = [] \<or> last a = CHR ''/'' then a @ b
      else a @ ''/'' @ b)"

text \<open>The namespace \<open>parse_args\<close> returns.\<close>

record args =
  n_estimators :: int
  max_depth :: int
  random_state :: int
  model_dir :: string
  train :: string
  test :: string
  output_data_dir :: string

text \<open>
  The command line as \<open>argparse\<close> has read it: for each option, the converted value if
  the option was given.
\<close>

record command_line =
  opt_n_estimators :: "int option"
  opt_max_depth :: "int option"
  opt_random_state :: "int option"
  opt_model_dir :: "string option"
  opt_train :: "string option"
  opt_test :: "string option"
  opt_output_data_dir :: "string option"

text \<open>\<open>os.environ.get(name, default)\<close>.\<close>

definition environ_get :: "(string \<rightharpoonup> string) \<Rightarrow> string \<Rightarrow> string \<Rightarrow> string" where
  "environ_get environ name dflt = (case environ name of Some v \<Rightarrow> v | None \<Rightarrow> dflt)"

definition opt_or :: "'a option \<Rightarrow> 'a \<Rightarrow> 'a" where
  "opt_or given dflt = (case given of Some v \<Rightarrow> v | None \<Rightarrow> dflt)"

definition parse_args :: "(string \<rightharpoonup> string) \<Rightarrow> command_line \<Rightarrow> args" where
  "parse_args environ cl =
     \<lparr>n_estimators = opt_or (opt_n_estimators cl) 100,
      max_depth = opt_or (opt_max_depth cl) 10,
      random_state = opt_or (opt_random_state cl) 42,
      model_dir = opt_or (opt_model_dir cl) (environ_get environ ''SM_MODEL_DIR'' ''/opt/ml/model''),
      train = opt_or (opt_train cl)
        (environ_get environ ''SM_CHANNEL_TRAIN'' ''/opt/ml/input/data/train''),
      test = opt_or (opt_test cl)
        (environ_get environ ''SM_CHANNEL_TEST'' ''/opt/ml/input/data/test''),
      output_data_dir = opt_or (opt_output_data_dir cl)
        (environ_get environ ''SM_OUTPUT_DATA_DIR'' ''/opt/ml/output'')\<rparr>"

text \<open>
  The library calls of the script, each returning or raising: \<open>pd.read_csv(path)\<close>,
  \<open>df.iloc[:, :-1].values\<close>, \<open>df.iloc[:, -1].values\<close>,
  \<open>RandomForestClassifier(n_estimators, max_depth, random_state, n_jobs=-1).fit(X, y)\<close>
  (the fitted model), \<open>model.predict(X)\<close>, \<open>accuracy_score(y, preds)\<close> and
  \<open>classification_report(y, preds)\<close>. \<open>'d\<close> is a data frame, \<open>'x\<close> a feature matrix, \<open>'y\<close>
  a label vector, \<open>'f\<close> a float, \<open>'m\<close> a fitted model.
\<close>

record ('d, 'x, 'y, 'f, 'm) ml_library =
  read_csv :: "string \<Rightarrow> py_exn + 'd"
  iloc_features :: "'d \<Rightarrow> py_exn + 'x"
  iloc_target :: "'d \<Rightarrow> py_exn + 'y"
  fit :: "int \<Rightarrow> int \<Rightarrow> int \<Rightarrow> 'x \<Rightarrow> 'y \<Rightarrow> py_exn + 'm"
  rf_predict :: "'m \<Rightarrow> 'x \<Rightarrow> py_exn + 'y"
  accuracy_score :: "'y \<Rightarrow> 'y \<Rightarrow> py_exn + 'f"
  classification_report :: "'y \<Rightarrow> 'y \<Rightarrow> py_exn + string"

text \<open>
  What the script writes: a JSON object (its keys in order, with float values) or a
  \<open>joblib\<close> dump of a model. The file system maps a path to what was written there;
  \<open>writable\<close> says whether opening the path for writing succeeds.
\<close>

datatype ('f, 'm) file_content = JsonObject "(string \<times> 'f) list" | JoblibDump 'm

record ('f, 'm) filesystem =
  contents :: "string \<rightharpoonup> ('f, 'm) file_content"
  writable :: "string \<Rightarrow> bool"

definition write_file ::
  "('f, 'm) filesystem \<Rightarrow> string \<Rightarrow> ('f, 'm) file_content \<Rightarrow> py_exn + ('f, 'm) filesystem"
where
  "write_file fs path c =
     (if writable fs path then Inr (fs\<lparr>contents := (contents fs)(path \<mapsto> c)\<rparr>)
      else Inl (PyException ''OSError'' path))"

definition load_data ::
  "('d, 'x, 'y, 'f, 'm) ml_library \<Rightarrow> string \<Rightarrow> string \<Rightarrow> py_exn + ('d \<times> 'd)"
where
  "load_data lib train_dir test_dir =
     (let train_file = os_path_join train_dir ''train.csv'';
          test_file = os_path_join test_dir ''test.csv''
      in bind_exn (read_csv lib train_file) (\<lambda>train_df.
         bind_exn (read_csv lib test_file) (\<lambda>test_df.
         Inr (train_df, test_df))))"

text \<open>
  \<open>train_model\<close>: the fitted model and the file system with the metrics written, or the
  exception that ended the run. Printing is not part of the result;
  \<open>classification_report\<close> is called for the text it prints and can raise.
\<close>

definition train_model ::
  "('d, 'x, 'y, 'f, 'm) ml_library \<Rightarrow> ('f, 'm) filesystem \<Rightarrow> args \<Rightarrow>
     py_exn + ('m \<times> ('f, 'm) filesystem)"
where
  "train_model lib fs a =
     bind_exn (load_data lib (train a) (test a)) (\<lambda>(train_df, test_df).
     bind_exn (iloc_features lib train_df) (\<lambda>X_train.
     bind_exn (iloc_target lib train_df) (\<lambda>y_train.
     bind_exn (iloc_features lib test_df) (\<lambda>X_test.
     bind_exn (iloc_target lib test_df) (\<lambda>y_test.
     bind_exn (fit lib (n_estimators a) (max_depth a) (random_state a) X_train y_train) (\<lambda>m.
     bind_exn (rf_predict lib m X_train) (\<lambda>train_preds.
     bind_exn (rf_predict lib m X_test) (\<lambda>test_preds.
     bind_exn (accuracy_score lib y_train train_preds) (\<lambda>train_acc.
     bind_exn (accuracy_score lib y_test test_preds) (\<lambda>test_acc.
     bind_exn (classification_report lib y_test test_preds) (\<lambda>report.
     (let metrics = [(''train_accuracy'', train_acc), (''test_accuracy'', test_acc)];
          metrics_path = os_path_join (output_data_dir a) ''metrics.json''
      in bind_exn (write_file fs metrics_path (JsonObject metrics)) (\<lambda>fs'.
         Inr (m, fs'))))))))))))))"

definition save_model ::
  "('f, 'm) filesystem \<Rightarrow> 'm \<Rightarrow> string \<Rightarrow> py_exn + ('f, 'm) filesystem"
where
  "save_model fs m dir =
     (let model_file = os_path_join dir ''model.joblib''
      in write_file fs model_file (JoblibDump m))"

text \<open>The \<open>__main__\<close> block: a run succeeds when it ends with \<open>Inr\<close>.\<close>

definition train_script ::
  "('d, 'x, 'y, 'f, 'm) ml_library \<Rightarrow> (string \<rightharpoonup> string) \<Rightarrow> command_line \<Rightarrow>
     ('f, 'm) filesystem \<Rightarrow> py_exn + ('f, 'm) filesystem"
where
  "train_script lib environ cl fs =
     (let a = parse_args environ cl
      in bind_exn (train_model lib fs a) (\<lambda>(m, fs').
         save_model fs' m (model_dir a)))"

section \<open>Example models, file systems and libraries\<close>

text \<open>
  A classifier that checks its input the way a fitted scikit-learn estimator does: four
  features per row, two classes, an exception for any other row length.
\<close>

definition wrong_shape :: py_exn where
  "wrong_shape = PyException ''ValueError'' ''X has a different number of features than expected''"

definition strict_predict :: "real list list \<Rightarrow> py_exn + int list" where
  "strict_predict X =
     (if list_all (\<lambda>row. length row = 4) X
      then Inr (map (\<lambda>row. if hd row < 1 then 0 else 1) X)
      else Inl wrong_shape)"

definition strict_predict_proba :: "real list list \<Rightarrow> py_exn + real list list" where
  "strict_predict_proba X =
     (if list_all (\<lambda>row. length row = 4) X
      then Inr (map (\<lambda>row. if hd row < 1 then [3 / 4, 1 / 4] else [1 / 4, 3 / 4]) X)
      else Inl wrong_shape)"

definition strict_classifier :: "(real, int) classifier" where
  "strict_classifier =
     \<lparr>n_features_in = 4, n_classes = 2, predict_method = strict_predict,
      predict_proba_method = strict_predict_proba, label_int = Inr\<rparr>"

text \<open>
  A baseline that ignores the features, as a constant-prior estimator does: it answers
  for rows of any length, the empty row included.
\<close>

definition prior_classifier :: "(real, int) classifier" where
  "prior_classifier =
     \<lparr>n_features_in = 4, n_classes = 2,
      predict_method = (\<lambda>X. Inr (map (\<lambda>row. 0) X)),
      predict_proba_method = (\<lambda>X. Inr (map (\<lambda>row. [1 / 2, 1 / 2]) X)),
      label_int = Inr\<rparr>"

definition loaded_state :: "('f, 'l) classifier \<Rightarrow> ('f, 'l) app_state" where
  "loaded_state m =
     \<lparr>model = Some m, printed = [''Model loaded successfully''], load_calls = [model_path]\<rparr>"

text \<open>A file system with the artifact in place, and one without it.\<close>

definition artifact_present :: "string \<Rightarrow> py_exn + (real, int) classifier" where
  "artifact_present path =
     (if path = model_path then Inr strict_classifier
      else Inl (PyException ''FileNotFoundError'' path))"

definition artifact_missing :: "string \<Rightarrow> py_exn + (real, int) classifier" where
  "artifact_missing path = Inl (PyException ''FileNotFoundError'' ''No such file or directory'')"

text \<open>
  The property the specification asks of a probability sequence: one entry per class,
  summing to 1 within \<open>1e-6\<close>. A float is read as the real number it denotes.
\<close>

definition sums_to_one :: "nat \<Rightarrow> real list \<Rightarrow> bool" where
  "sums_to_one k ps = (length ps = k \<and> \<bar>sum_list ps - 1\<bar> \<le> 1 / 10 ^ 6)"

text \<open>
  Modelled from the spec: the trained classifier inside the model artifact, whose code
  (the estimator the artifact deserialises to) is not among the source files. The
  specification describes it as a trained classifier with an expected input
  dimensionality and a number of classes, answering a feature vector with an integer
  class label and a sequence of per-class probabilities that sums to 1.0 within
  floating-point tolerance. \<open>answers_as_classifier m x\<close> says that \<open>m\<close> answers the
  single row \<open>x\<close> that way: \<open>predict\<close> returns a label array whose first element \<open>int\<close>
  converts, and \<open>predict_proba\<close> returns a first row with one entry per class summing
  to 1 within \<open>1e-6\<close>. \<open>trained_classifier m\<close> says that \<open>m\<close> does so for every feature
  vector of its expected dimensionality \<open>n_features_in m\<close>.
\<close>

definition answers_as_classifier :: "(real, 'l) classifier \<Rightarrow> real list \<Rightarrow> bool" where
  "answers_as_classifier m x =
     (case predict_method m [x] of
        Inl e \<Rightarrow> False
      | Inr labels \<Rightarrow>
     (case labels of
        [] \<Rightarrow> False
      | y # ys \<Rightarrow>
     (case label_int m y of
        Inl e \<Rightarrow> False
      | Inr l \<Rightarrow>
     (case predict_proba_method m [x] of
        Inl e \<Rightarrow> False
      | Inr proba \<Rightarrow>
     (case proba of
        [] \<Rightarrow> False
      | row # rows \<Rightarrow> sums_to_one (n_classes m) row)))))"

definition trained_classifier :: "(real, 'l) classifier \<Rightarrow> bool" where
  "trained_classifier m = (\<forall>x. length x = n_features_in m \<longrightarrow> answers_as_classifier m x)"

text \<open>
  A small training set-up: data frames are lists of rows with the target last, the
  fitted model is the constant predictor of the first training target, accuracy is the
  share of equal entries.
\<close>

definition toy_read_csv :: "string \<Rightarrow> py_exn + nat list list" where
  "toy_read_csv path =
     (if path = ''/opt/ml/input/data/train/train.csv'' then Inr [[1, 0], [2, 1]]
      else if path = ''/opt/ml/input/data/test/test.csv'' then Inr [[3, 1]]
      else Inl (PyException ''FileNotFoundError'' path))"

definition toy_fit :: "int \<Rightarrow> int \<Rightarrow> int \<Rightarrow> nat list list \<Rightarrow> nat list \<Rightarrow> py_exn + nat" where
  "toy_fit n d r X y =
     (case y of [] \<Rightarrow> Inl (PyException ''ValueError'' ''no samples'') | v # vs \<Rightarrow> Inr v)"

definition toy_accuracy :: "nat list \<Rightarrow> nat list \<Rightarrow> py_exn + real" where
  "toy_accuracy y p =
     (if length y = length p \<and> y \<noteq> []
      then Inr (real (length (filter (\<lambda>(a, b). a = b) (zip y p))) / real (length y))
      else Inl (PyException ''ValueError'' ''inconsistent numbers of samples''))"

definition toy_library :: "(nat list list, nat list list, nat list, real, nat) ml_library" where
  "toy_library =
     \<lparr>read_csv = toy_read_csv,
      iloc_features = (\<lambda>d. Inr (map butlast d)),
      iloc_target = (\<lambda>d. Inr (map last d)),
      fit = toy_fit,
      rf_predict = (\<lambda>m X. Inr (map (\<lambda>row. m) X)),
      accuracy_score = toy_accuracy,
      classification_report = (\<lambda>y p. Inr ''report'')\<rparr>"

definition no_options :: command_line where
  "no_options =
     \<lparr>opt_n_estimators = None, opt_max_depth = None, opt_random_state = None,
      opt_model_dir = None, opt_train = None, opt_test = None, opt_output_data_dir = None\<rparr>"

definition empty_fs :: "(real, nat) filesystem" where
  "empty_fs = \<lparr>contents = Map.empty, writable = (\<lambda>path. True)\<rparr>"

text \<open>What the run of the training script on the small set-up leaves behind.\<close>

definition toy_result :: "(real, nat) filesystem" where
  "toy_result =
     \<lparr>contents =
        [''/opt/ml/output/metrics.json'' \<mapsto>
           JsonObject [(''train_accuracy'', 1 / 2), (''test_accuracy'', 0)],
         ''/opt/ml/model/model.joblib'' \<mapsto> JoblibDump 0],
      writable = (\<lambda>path. True)\<rparr>"

section \<open>Sequencing and handler lemmas\<close>

lemma bind_exn_Inr [simp]: "bind_exn (Inr v) f = f v"
  by (simp add: bind_exn_def)

lemma bind_exn_Inl [simp]: "bind_exn (Inl e) f = Inl e"
  by (simp add: bind_exn_def)

lemma bind_exn_eq_Inr: "bind_exn x f = Inr r \<longleftrightarrow> (\<exists>v. x = Inr v \<and> f v = Inr r)"
  by (cases x) simp_all

lemma predict_loaded:
  assumes "model st = Some m"
  shows "predict st request =
    (case model_call m [features request] of
       Inl e \<Rightarrow> (Raise \<lparr>status_code = 400, detail = ''Prediction error: '' @ exn_str e\<rparr>, st)
     | Inr (l, ps) \<Rightarrow> (Return \<lparr>prediction = l, probability = ps\<rparr>, st))"
  using assms
  by (simp add: predict_def predict_try_def reshape_row_def PredictionResponse_def
      split: sum.splits prod.splits)

lemma model_call_rejected:
  "predict_method m feats = Inl e \<Longrightarrow> model_call m feats = Inl e"
  by (simp add: model_call_def)

lemma model_call_accepted:
  assumes "predict_method m feats = Inr (y # ys)" and "label_int m y = Inr l"
    and "predict_proba_method m feats = Inr (row # rows)"
  shows "model_call m feats = Inr (l, row)"
  using assms by (simp add: model_call_def tolist_def)

lemma predict_never_unhandled: "fst (predict st request) \<noteq> Unhandled x"
  by (simp add: predict_def split: option.splits sum.splits)

lemma strict_call_ok:
  "model_call strict_classifier [[0, 2, 3, 4]] = Inr (0, [3 / 4, 1 / 4])"
  by (simp add: model_call_def strict_classifier_def strict_predict_def
      strict_predict_proba_def tolist_def)

lemma strict_call_short:
  "predict_method strict_classifier [[1, 2, 3]] = Inl wrong_shape"
  by (simp add: strict_classifier_def strict_predict_def)

lemma strict_call_empty:
  "predict_method strict_classifier [[]] = Inl wrong_shape"
  by (simp add: strict_classifier_def strict_predict_def)

lemma dispatch_state: "snd (dispatch st r) = st"
  by (cases r) (simp_all add: dispatch_def health_check_def predict_def root_handler_def
      split: option.splits sum.splits)

lemma serve_all_state: "snd (serve_all st rs) = st"
proof (induction rs arbitrary: st)
  case Nil
  show ?case by simp
next
  case (Cons r rs)
  have "snd (dispatch st r) = st" by (rule dispatch_state)
  with Cons.IH [of st] show ?case
    by (cases "dispatch st r"; cases "serve_all st rs") simp
qed

lemma serve_all_length: "length (fst (serve_all st rs)) = length rs"
proof (induction rs arbitrary: st)
  case Nil
  show ?case by simp
next
  case (Cons r rs)
  obtain out st' where d: "dispatch st r = (out, st')" by (cases "dispatch st r")
  obtain outs st'' where s: "serve_all st' rs = (outs, st'')" by (cases "serve_all st' rs")
  from Cons.IH [of st'] s have "length outs = length rs" by simp
  with d s show ?case by simp
qed

lemma load_model_initial:
  "load_model joblib_load initial_state =
     Inr (case joblib_load model_path of
            Inr m \<Rightarrow> \<lparr>model = Some m, printed = [''Model loaded successfully''],
                       load_calls = [model_path]\<rparr>
          | Inl e \<Rightarrow> \<lparr>model = None,
                       printed = [''Warning: Could not load model: '' @ exn_str e,
                                  ''Using dummy model for testing''],
                       load_calls = [model_path]\<rparr>)"
  by (simp add: load_model_def initial_state_def split: sum.splits)

lemma process_run_state:
  "process_run joblib_load requests =
     Inr (fst (serve_all (projr (load_model joblib_load initial_state)) requests),
          projr (load_model joblib_load initial_state))"
proof -
  obtain st where st: "load_model joblib_load initial_state = Inr st"
    using load_model_initial [of joblib_load] by blast
  have "serve_all st requests = (fst (serve_all st requests), st)"
    using serve_all_state [of st requests] by (cases "serve_all st requests") simp
  with st show ?thesis by (simp add: process_run_def)
qed

lemma serve_all_Cons:
  "serve_all st (r # rs) = (fst (dispatch st r) # fst (serve_all st rs), st)"
  using dispatch_state [of st r] serve_all_state [of st rs]
  by (cases "dispatch st r"; cases "serve_all st rs") simp

section \<open>The prediction endpoint without a model\<close>

text \<open>
  C2. While the Model Holder is empty (\<open>model\<close> is \<open>None\<close>), every request to
  \<open>POST /invocations\<close> ends with the 503 error "Model not loaded", whatever the feature
  list: no prediction is returned, nothing else is raised, and the state is left as it
  was. There is no model object to call in this branch.
\<close>

theorem predict_unloaded:
  assumes "model st = None"
  shows "predict st request = (Raise \<lparr>status_code = 503, detail = ''Model not loaded''\<rparr>, st)
    \<and> (\<forall>r. fst (predict st request) \<noteq> Return r)"
  using assms by (simp add: predict_def)

theorem predict_unloaded_witness:
  "model (initial_state :: (real, int) app_state) = None
   \<and> fst (predict (initial_state :: (real, int) app_state) \<lparr>features = [1, 2, 3, 4]\<rparr>)
       = Raise \<lparr>status_code = 503, detail = ''Model not loaded''\<rparr>"
proof -
  have h: "model (initial_state :: (real, int) app_state) = None"
    by (simp add: initial_state_def)
  show ?thesis
    using h predict_unloaded [OF h, of "\<lparr>features = [1, 2, 3, 4]\<rparr>"] by simp
qed

section \<open>The health check\<close>

text \<open>
  C3. \<open>GET /ping\<close> returns the healthy status exactly when the Model Holder is
  non-empty; when \<open>model\<close> is \<open>None\<close> it raises the 503 error "Model not loaded".
\<close>

theorem health_check_healthy_iff:
  "(fst (health_check st) = Return [(''status'', ''healthy'')]) = (model st \<noteq> None)
   \<and> (model st = None \<longrightarrow>
        health_check st = (Raise \<lparr>status_code = 503, detail = ''Model not loaded''\<rparr>, st))"
  by (simp add: health_check_def)

theorem health_check_healthy_iff_witness:
  "health_check (initial_state :: (real, int) app_state)
     = (Raise \<lparr>status_code = 503, detail = ''Model not loaded''\<rparr>, initial_state)
   \<and> fst (health_check (loaded_state strict_classifier)) = Return [(''status'', ''healthy'')]"
  using health_check_healthy_iff [of "initial_state :: (real, int) app_state"]
    health_check_healthy_iff [of "loaded_state strict_classifier"]
  by (simp add: initial_state_def loaded_state_def)

section \<open>The prediction endpoint with a model\<close>

text \<open>
  C4. With a model loaded, a feature vector whose shape the model rejects (its
  \<open>predict\<close> raises on the single-row input) ends \<open>POST /invocations\<close> with the 400
  error, whose detail is "Prediction error: " followed by the text of the exception.
  The same holds for every exception raised anywhere in the model call. The request
  ends there, no exception leaves the handler unhandled, the process state is the one
  before the request, and the requests that follow are served as they would have been
  without it.
\<close>

theorem predict_model_failure:
  assumes "model st = Some m"
  shows "(predict_method m (reshape_row (features request)) = Inl e \<longrightarrow>
            predict st request =
              (Raise \<lparr>status_code = 400, detail = ''Prediction error: '' @ exn_str e\<rparr>, st))
    \<and> (model_call m (reshape_row (features request)) = Inl e' \<longrightarrow>
            predict st request =
              (Raise \<lparr>status_code = 400, detail = ''Prediction error: '' @ exn_str e'\<rparr>, st))
    \<and> (\<forall>x. fst (predict st request) \<noteq> Unhandled x)
    \<and> serve_all st (PostInvocations request # rs) =
        (map_handler_exit Prediction (fst (predict st request)) # fst (serve_all st rs), st)"
proof -
  have after: "serve_all st (PostInvocations request # rs) =
      (map_handler_exit Prediction (fst (predict st request)) # fst (serve_all st rs), st)"
    by (simp only: serve_all_Cons) (simp add: dispatch_def)
  have call: "model_call m (reshape_row (features request)) = Inl x \<Longrightarrow>
      predict st request =
        (Raise \<lparr>status_code = 400, detail = ''Prediction error: '' @ exn_str x\<rparr>, st)" for x
    using predict_loaded [OF assms, of request] by (simp add: reshape_row_def)
  have "predict_method m (reshape_row (features request)) = Inl e \<Longrightarrow>
      model_call m (reshape_row (features request)) = Inl e"
    by (rule model_call_rejected)
  with call after show ?thesis
    using predict_never_unhandled [of st request] by blast
qed

theorem predict_model_failure_witness:
  "model (loaded_state strict_classifier) = Some strict_classifier
   \<and> predict_method strict_classifier (reshape_row [1, 2, 3]) = Inl wrong_shape
   \<and> predict (loaded_state strict_classifier) \<lparr>features = [1, 2, 3]\<rparr> =
       (Raise \<lparr>status_code = 400,
               detail = ''Prediction error: X has a different number of features than expected''\<rparr>,
        loaded_state strict_classifier)"
proof -
  have h: "model (loaded_state strict_classifier) = Some strict_classifier"
    by (simp add: loaded_state_def)
  have r: "predict_method strict_classifier (reshape_row [1, 2, 3]) = Inl wrong_shape"
    by (simp add: reshape_row_def strict_call_short)
  show ?thesis
    using h r predict_model_failure [OF h, of "\<lparr>features = [1, 2, 3]\<rparr>" wrong_shape wrong_shape "[]"]
    by (simp add: wrong_shape_def)
qed

text \<open>
  C5. With a model loaded, the feature sequence becomes the single row of the input
  (same elements, same order, same length). If the model accepts it (\<open>predict\<close> returns
  a non-empty label array whose first element \<open>int\<close> converts, \<open>predict_proba\<close> returns at
  least one row), the handler returns that integer as the label and the first row of
  \<open>predict_proba\<close> as the probability vector. If the model rejects the input, the
  handler fails with the 400 invalid-input error.
\<close>

theorem predict_accepted:
  assumes "model st = Some m"
  shows "reshape_row xs = [xs]
    \<and> (predict_method m (reshape_row xs) = Inr (y # ys)
         \<and> label_int m y = Inr l
         \<and> predict_proba_method m (reshape_row xs) = Inr (row # rows) \<longrightarrow>
       predict st \<lparr>features = xs\<rparr> = (Return \<lparr>prediction = l, probability = row\<rparr>, st))
    \<and> (predict_method m (reshape_row xs) = Inl e \<longrightarrow>
       predict st \<lparr>features = xs\<rparr> =
         (Raise \<lparr>status_code = 400, detail = ''Prediction error: '' @ exn_str e\<rparr>, st))"
proof -
  have shape: "reshape_row xs = [xs]"
    by (simp add: reshape_row_def)
  have ok: "predict st \<lparr>features = xs\<rparr> = (Return \<lparr>prediction = l, probability = row\<rparr>, st)"
    if "predict_method m [xs] = Inr (y # ys)" and "label_int m y = Inr l"
      and "predict_proba_method m [xs] = Inr (row # rows)"
    using predict_loaded [OF assms, of "\<lparr>features = xs\<rparr>"] model_call_accepted [OF that]
    by simp
  have bad: "predict st \<lparr>features = xs\<rparr> =
      (Raise \<lparr>status_code = 400, detail = ''Prediction error: '' @ exn_str e\<rparr>, st)"
    if "predict_method m [xs] = Inl e"
    using predict_loaded [OF assms, of "\<lparr>features = xs\<rparr>"] model_call_rejected [OF that]
    by simp
  from shape ok bad show ?thesis by simp
qed

theorem predict_accepted_witness:
  "model (loaded_state strict_classifier) = Some strict_classifier
   \<and> predict_method strict_classifier (reshape_row [0, 2, 3, 4]) = Inr [0]
   \<and> label_int strict_classifier 0 = Inr 0
   \<and> predict_proba_method strict_classifier (reshape_row [0, 2, 3, 4]) = Inr [[3 / 4, 1 / 4]]
   \<and> predict (loaded_state strict_classifier) \<lparr>features = [0, 2, 3, 4]\<rparr> =
       (Return \<lparr>prediction = 0, probability = [3 / 4, 1 / 4]\<rparr>, loaded_state strict_classifier)
   \<and> predict_method strict_classifier (reshape_row [1, 2, 3]) = Inl wrong_shape
   \<and> fst (predict (loaded_state strict_classifier) \<lparr>features = [1, 2, 3]\<rparr>) =
       Raise \<lparr>status_code = 400,
              detail = ''Prediction error: X has a different number of features than expected''\<rparr>"
proof -
  have h: "model (loaded_state strict_classifier) = Some strict_classifier"
    by (simp add: loaded_state_def)
  have a: "predict_method strict_classifier (reshape_row [0, 2, 3, 4]) = Inr [0]"
    "label_int strict_classifier 0 = Inr 0"
    "predict_proba_method strict_classifier (reshape_row [0, 2, 3, 4]) = Inr [[3 / 4, 1 / 4]]"
    by (simp_all add: reshape_row_def strict_classifier_def strict_predict_def
        strict_predict_proba_def)
  have r: "predict_method strict_classifier (reshape_row [1, 2, 3]) = Inl wrong_shape"
    by (simp add: reshape_row_def strict_call_short)
  show ?thesis
    using h a r
      predict_accepted [OF h, of "[0, 2, 3, 4]" 0 "[]" 0 "[3 / 4, 1 / 4]" "[]" wrong_shape]
      predict_accepted [OF h, of "[1, 2, 3]" 0 "[]" 0 "[]" "[]" wrong_shape]
    by (simp add: wrong_shape_def)
qed

section \<open>The response\<close>

text \<open>
  C8. Building the response from a label and a probability vector cannot fail and
  changes neither: the \<open>prediction\<close> field is the label, the \<open>probability\<close> field is the
  vector. Whenever the model call of a request yields a label and a vector, the handler
  returns the response built from exactly these.
\<close>

theorem response_formatter:
  "prediction (PredictionResponse l ps) = l
   \<and> probability (PredictionResponse l ps) = ps
   \<and> (model st = Some m \<and> model_call m (reshape_row (features request)) = Inr (l, ps) \<longrightarrow>
        predict st request = (Return (PredictionResponse l ps), st))"
  by (simp add: PredictionResponse_def predict_def predict_try_def)

theorem response_formatter_witness:
  "model (loaded_state strict_classifier) = Some strict_classifier
   \<and> model_call strict_classifier (reshape_row [0, 2, 3, 4]) = Inr (0, [3 / 4, 1 / 4])
   \<and> predict (loaded_state strict_classifier) \<lparr>features = [0, 2, 3, 4]\<rparr> =
       (Return \<lparr>prediction = 0, probability = [3 / 4, 1 / 4]\<rparr>, loaded_state strict_classifier)"
proof -
  have h: "model (loaded_state strict_classifier) = Some strict_classifier"
    by (simp add: loaded_state_def)
  have c: "model_call strict_classifier (reshape_row [0, 2, 3, 4]) = Inr (0, [3 / 4, 1 / 4])"
    by (simp add: reshape_row_def strict_call_ok)
  show ?thesis
    using h c
      response_formatter [of 0 "[3 / 4, 1 / 4]" "loaded_state strict_classifier"
        strict_classifier "\<lparr>features = [0, 2, 3, 4]\<rparr>"]
    by (simp add: PredictionResponse_def)
qed

section \<open>The process lifetime\<close>

text \<open>
  C6. In one process lifetime the model file is loaded from exactly once, by the
  startup hook, whatever requests follow: the only call of \<open>joblib.load\<close> is the one on
  the fixed path, and no handler makes another. The load is best-effort: if it raises,
  the exception is caught, two lines are printed (a warning with the text of the
  exception, then "Using dummy model for testing"), \<open>model\<close> stays \<open>None\<close>, and the
  process goes on to answer every request. If it succeeds, \<open>model\<close> holds the loaded
  object.
\<close>

theorem load_once_best_effort:
  "\<exists>outs st. process_run joblib_load requests = Inr (outs, st)
     \<and> length outs = length requests
     \<and> load_calls st = [model_path]
     \<and> (\<forall>e. joblib_load model_path = Inl e \<longrightarrow>
           model st = None
           \<and> printed st = [''Warning: Could not load model: '' @ exn_str e,
                           ''Using dummy model for testing''])
     \<and> (\<forall>m. joblib_load model_path = Inr m \<longrightarrow> model st = Some m)"
proof -
  let ?st = "projr (load_model joblib_load initial_state)"
  let ?outs = "fst (serve_all ?st requests)"
  have run: "process_run joblib_load requests = Inr (?outs, ?st)"
    by (rule process_run_state)
  have len: "length ?outs = length requests"
    by (rule serve_all_length)
  have calls: "load_calls ?st = [model_path]"
    by (simp add: load_model_initial split: sum.splits)
  have failed: "model ?st = None
      \<and> printed ?st = [''Warning: Could not load model: '' @ exn_str e,
                       ''Using dummy model for testing'']"
    if "joblib_load model_path = Inl e" for e
    using that by (simp add: load_model_initial)
  have loaded: "model ?st = Some m" if "joblib_load model_path = Inr m" for m
    using that by (simp add: load_model_initial)
  from run len calls failed loaded show ?thesis by blast
qed

theorem load_once_best_effort_witness:
  "artifact_missing model_path = Inl (PyException ''FileNotFoundError'' ''No such file or directory'')
   \<and> (\<exists>outs st. process_run artifact_missing
          [GetPing, PostInvocations \<lparr>features = [0, 2, 3, 4]\<rparr>, GetRoot] = Inr (outs, st)
        \<and> length outs = 3
        \<and> load_calls st = [model_path]
        \<and> model st = None
        \<and> printed st = [''Warning: Could not load model: No such file or directory'',
                        ''Using dummy model for testing''])"
proof -
  have h: "artifact_missing model_path =
      Inl (PyException ''FileNotFoundError'' ''No such file or directory'')"
    by (simp add: artifact_missing_def)
  show ?thesis
    using h load_once_best_effort [of artifact_missing
        "[GetPing, PostInvocations \<lparr>features = [0, 2, 3, 4]\<rparr>, GetRoot]"]
    by auto
qed

text \<open>
  C7. No request handler changes the state: after \<open>GET /ping\<close>, \<open>POST /invocations\<close> or
  \<open>GET /\<close>, and after any sequence of requests, \<open>model\<close> (and the rest of the state) is
  what it was before. Over a process lifetime \<open>model\<close> therefore has the value the
  startup hook gave it: the loaded object if the load succeeded, \<open>None\<close> if it failed.
\<close>

theorem model_holder_read_only:
  "snd (health_check st) = st
   \<and> snd (predict st request) = st
   \<and> snd (root_handler st) = st
   \<and> snd (serve_all st requests) = st
   \<and> map_sum id (\<lambda>(outs, st'). model st') (process_run joblib_load requests) =
       Inr (case joblib_load model_path of Inr m \<Rightarrow> Some m | Inl e \<Rightarrow> None)"
proof -
  have handlers: "snd (health_check st) = st" "snd (predict st request) = st"
    "snd (root_handler st) = st"
    by (simp_all add: health_check_def predict_def root_handler_def
        split: option.splits sum.splits)
  have run: "map_sum id (\<lambda>(outs, st'). model st') (process_run joblib_load requests) =
      Inr (case joblib_load model_path of Inr m \<Rightarrow> Some m | Inl e \<Rightarrow> None)"
    by (simp add: process_run_state load_model_initial split: sum.splits)
  from handlers serve_all_state [of st requests] run show ?thesis by simp
qed

theorem model_holder_read_only_witness:
  "map_sum id (\<lambda>(outs, st'). model st')
     (process_run artifact_present
        [GetPing, PostInvocations \<lparr>features = [0, 2, 3, 4]\<rparr>, GetRoot]) =
     Inr (Some strict_classifier)
   \<and> map_sum id (\<lambda>(outs, st'). model st')
     (process_run artifact_missing [PostInvocations \<lparr>features = [0, 2, 3, 4]\<rparr>, GetPing]) =
     Inr None"
proof -
  let ?rq = "\<lparr>features = [0, 2, 3, 4 :: real]\<rparr>"
  have present: "map_sum id (\<lambda>(outs, st'). model st')
      (process_run artifact_present [GetPing, PostInvocations ?rq, GetRoot]) =
      Inr (case artifact_present model_path of Inr m \<Rightarrow> Some m | Inl e \<Rightarrow> None)"
    using model_holder_read_only [of "loaded_state strict_classifier" ?rq
        "[GetPing, PostInvocations ?rq, GetRoot]" artifact_present]
    by blast
  have missing: "map_sum id (\<lambda>(outs, st'). model st')
      (process_run artifact_missing [PostInvocations ?rq, GetPing]) =
      Inr (case artifact_missing model_path of Inr m \<Rightarrow> Some m | Inl e \<Rightarrow> None)"
    using model_holder_read_only [of "loaded_state strict_classifier" ?rq
        "[PostInvocations ?rq, GetPing]" artifact_missing]
    by blast
  from present missing show ?thesis
    by (simp add: artifact_present_def artifact_missing_def)
qed

section \<open>What the response says about probabilities\<close>

lemma answers_as_classifier_call:
  assumes "answers_as_classifier m x"
  shows "\<exists>l row. model_call m [x] = Inr (l, row) \<and> sums_to_one (n_classes m) row"
proof -
  from assms obtain y ys l row rows where
    "predict_method m [x] = Inr (y # ys)" "label_int m y = Inr l"
    "predict_proba_method m [x] = Inr (row # rows)" "sums_to_one (n_classes m) row"
    unfolding answers_as_classifier_def
    by (auto split: sum.splits list.splits)
  then show ?thesis
    using model_call_accepted [of m "[x]" y ys l row rows] by blast
qed

lemma strict_classifier_trained: "trained_classifier strict_classifier"
proof -
  have "answers_as_classifier strict_classifier x" if "length x = 4" for x
    using that
    by (simp add: answers_as_classifier_def strict_classifier_def strict_predict_def
        strict_predict_proba_def sums_to_one_def)
  then show ?thesis
    by (simp add: trained_classifier_def strict_classifier_def)
qed

text \<open>
  C1. With a trained classifier loaded, every feature vector of the classifier's
  expected input dimensionality submitted to \<open>POST /invocations\<close> gets a response, and
  the probability sequence in it has one entry per class and sums to 1.0 within
  \<open>1e-6\<close>: the handler hands the vector to the classifier as its single row and returns
  the first row of \<open>predict_proba\<close> as it is, without rounding, reordering or
  truncating it. A float is read as the real number it denotes.
\<close>

theorem response_probabilities_sum_to_one:
  assumes "trained_classifier m"
    and "model st = Some m"
    and "length xs = n_features_in m"
  shows "\<exists>r. predict st \<lparr>features = xs\<rparr> = (Return r, st)
    \<and> length (probability r) = n_classes m
    \<and> \<bar>sum_list (probability r) - 1\<bar> \<le> 1 / 10 ^ 6"
proof -
  from assms(1,3) have "answers_as_classifier m xs"
    by (simp add: trained_classifier_def)
  then obtain l row where
    call: "model_call m [xs] = Inr (l, row)" and row: "sums_to_one (n_classes m) row"
    using answers_as_classifier_call by blast
  have "predict st \<lparr>features = xs\<rparr> = (Return \<lparr>prediction = l, probability = row\<rparr>, st)"
    using predict_loaded [OF assms(2), of "\<lparr>features = xs\<rparr>"] call by simp
  with row show ?thesis
    by (simp add: sums_to_one_def)
qed

theorem response_probabilities_sum_to_one_witness:
  "trained_classifier strict_classifier
   \<and> model (loaded_state strict_classifier) = Some strict_classifier
   \<and> length [0, 2, 3, 4 :: real] = n_features_in strict_classifier
   \<and> predict (loaded_state strict_classifier) \<lparr>features = [0, 2, 3, 4]\<rparr> =
       (Return \<lparr>prediction = 0, probability = [3 / 4, 1 / 4]\<rparr>, loaded_state strict_classifier)
   \<and> length [3 / 4, 1 / 4 :: real] = n_classes strict_classifier
   \<and> \<bar>sum_list [3 / 4, 1 / 4 :: real] - 1\<bar> \<le> 1 / 10 ^ 6"
proof -
  have h: "model (loaded_state strict_classifier) = Some strict_classifier"
    by (simp add: loaded_state_def)
  have n: "length [0, 2, 3, 4 :: real] = n_features_in strict_classifier"
    by (simp add: strict_classifier_def)
  have p: "predict (loaded_state strict_classifier) \<lparr>features = [0, 2, 3, 4]\<rparr> =
      (Return \<lparr>prediction = 0, probability = [3 / 4, 1 / 4]\<rparr>, loaded_state strict_classifier)"
    using predict_loaded [OF h, of "\<lparr>features = [0, 2, 3, 4]\<rparr>"] strict_call_ok by simp
  from response_probabilities_sum_to_one [OF strict_classifier_trained h n] obtain r where
    "predict (loaded_state strict_classifier) \<lparr>features = [0, 2, 3, 4]\<rparr> =
       (Return r, loaded_state strict_classifier)"
    "length (probability r) = n_classes strict_classifier"
    "\<bar>sum_list (probability r) - 1\<bar> \<le> 1 / 10 ^ 6"
    by blast
  with p have "length [3 / 4, 1 / 4 :: real] = n_classes strict_classifier"
    "\<bar>sum_list [3 / 4, 1 / 4 :: real] - 1\<bar> \<le> 1 / 10 ^ 6"
    by auto
  with strict_classifier_trained h n p show ?thesis by blast
qed

section \<open>An empty feature list\<close>

text \<open>
  C10, as the code has it. The handler checks neither that the feature list is
  non-empty nor its length: with a model loaded, an empty list becomes the single empty
  row, which is handed to the model, and the outcome is the model's. An exception the
  model raises on it becomes the 400 error; no exception leaves the handler unhandled;
  a prediction is returned exactly when the model call on the empty row succeeds.
\<close>

theorem empty_features_passed_through:
  assumes "model st = Some m"
  shows "reshape_row (features \<lparr>features = []\<rparr>) = [[]]
    \<and> predict st \<lparr>features = []\<rparr> =
        (case model_call m [[]] of
           Inl e \<Rightarrow>
             (Raise \<lparr>status_code = 400, detail = ''Prediction error: '' @ exn_str e\<rparr>, st)
         | Inr (l, ps) \<Rightarrow> (Return \<lparr>prediction = l, probability = ps\<rparr>, st))
    \<and> (predict_method m [[]] = Inl e \<longrightarrow>
         predict st \<lparr>features = []\<rparr> =
           (Raise \<lparr>status_code = 400, detail = ''Prediction error: '' @ exn_str e\<rparr>, st))
    \<and> (\<forall>x. fst (predict st \<lparr>features = []\<rparr>) \<noteq> Unhandled x)"
proof -
  have p: "predict st \<lparr>features = []\<rparr> =
        (case model_call m [[]] of
           Inl e \<Rightarrow>
             (Raise \<lparr>status_code = 400, detail = ''Prediction error: '' @ exn_str e\<rparr>, st)
         | Inr (l, ps) \<Rightarrow> (Return \<lparr>prediction = l, probability = ps\<rparr>, st))"
    using predict_loaded [OF assms, of "\<lparr>features = []\<rparr>"] by simp
  have "predict st \<lparr>features = []\<rparr> =
      (Raise \<lparr>status_code = 400, detail = ''Prediction error: '' @ exn_str e\<rparr>, st)"
    if "predict_method m [[]] = Inl e"
    using p model_call_rejected [OF that] by simp
  with p show ?thesis
    using predict_never_unhandled [of st "\<lparr>features = []\<rparr>"]
    by (simp add: reshape_row_def)
qed

theorem empty_features_passed_through_witness:
  "model (loaded_state strict_classifier) = Some strict_classifier
   \<and> predict_method strict_classifier [[]] = Inl wrong_shape
   \<and> predict (loaded_state strict_classifier) \<lparr>features = []\<rparr> =
       (Raise \<lparr>status_code = 400,
               detail = ''Prediction error: X has a different number of features than expected''\<rparr>,
        loaded_state strict_classifier)"
proof -
  have h: "model (loaded_state strict_classifier) = Some strict_classifier"
    by (simp add: loaded_state_def)
  have "predict (loaded_state strict_classifier) \<lparr>features = []\<rparr> =
      (Raise \<lparr>status_code = 400, detail = ''Prediction error: '' @ exn_str wrong_shape\<rparr>,
       loaded_state strict_classifier)"
    using strict_call_empty empty_features_passed_through [OF h, of wrong_shape]
    by blast
  with h strict_call_empty show ?thesis
    by (simp add: wrong_shape_def)
qed

text \<open>
  The claim's last clause fails for a loaded model that does not look at the features:
  the empty feature list gets a prediction.
\<close>

theorem empty_features_counterexample:
  "model (loaded_state prior_classifier) = Some prior_classifier
   \<and> predict (loaded_state prior_classifier) \<lparr>features = []\<rparr> =
       (Return \<lparr>prediction = 0, probability = [1 / 2, 1 / 2]\<rparr>, loaded_state prior_classifier)"
  by (simp add: loaded_state_def prior_classifier_def predict_def predict_try_def
      model_call_def reshape_row_def tolist_def PredictionResponse_def)

section \<open>The files the training script writes\<close>

lemma os_path_join_last: "b \<noteq> [] \<Longrightarrow> last (os_path_join a b) = last b"
  by (simp add: os_path_join_def)

lemma output_paths_differ:
  "os_path_join d ''metrics.json'' \<noteq> os_path_join d' ''model.joblib''"
proof
  assume eq: "os_path_join d ''metrics.json'' = os_path_join d' ''model.joblib''"
  have "last (os_path_join d ''metrics.json'') = CHR ''n''"
    by (simp add: os_path_join_last)
  moreover have "last (os_path_join d' ''model.joblib'') = CHR ''b''"
    by (simp add: os_path_join_last)
  ultimately show False using eq by simp
qed

lemma write_file_Inr:
  "write_file fs path c = Inr fs' \<Longrightarrow> fs' = fs\<lparr>contents := (contents fs)(path \<mapsto> c)\<rparr>"
  by (simp add: write_file_def split: if_splits)

lemma train_model_Inr:
  assumes "train_model lib fs a = Inr (m, fs1)"
  shows "\<exists>X_train y_train X_test y_test train_preds test_preds train_acc test_acc.
      fit lib (n_estimators a) (max_depth a) (random_state a) X_train y_train = Inr m
    \<and> rf_predict lib m X_train = Inr train_preds
    \<and> rf_predict lib m X_test = Inr test_preds
    \<and> accuracy_score lib y_train train_preds = Inr train_acc
    \<and> accuracy_score lib y_test test_preds = Inr test_acc
    \<and> write_file fs (os_path_join (output_data_dir a) ''metrics.json'')
         (JsonObject [(''train_accuracy'', train_acc), (''test_accuracy'', test_acc)]) = Inr fs1"
proof -
  from assms obtain train_df test_df X_train y_train X_test y_test train_preds test_preds
    train_acc test_acc report where
    "load_data lib (train a) (test a) = Inr (train_df, test_df)"
    "iloc_features lib train_df = Inr X_train" "iloc_target lib train_df = Inr y_train"
    "iloc_features lib test_df = Inr X_test" "iloc_target lib test_df = Inr y_test"
    "fit lib (n_estimators a) (max_depth a) (random_state a) X_train y_train = Inr m"
    "rf_predict lib m X_train = Inr train_preds"
    "rf_predict lib m X_test = Inr test_preds"
    "accuracy_score lib y_train train_preds = Inr train_acc"
    "accuracy_score lib y_test test_preds = Inr test_acc"
    "classification_report lib y_test test_preds = Inr report"
    "write_file fs (os_path_join (output_data_dir a) ''metrics.json'')
       (JsonObject [(''train_accuracy'', train_acc), (''test_accuracy'', test_acc)]) = Inr fs1"
    unfolding train_model_def Let_def
    by (auto simp add: bind_exn_eq_Inr split: prod.splits)
  then show ?thesis by blast
qed

text \<open>
  C9. A run of the training script that ends without an exception leaves two files.
  At \<open>metrics.json\<close> under the output data directory: the JSON object with the keys
  \<open>train_accuracy\<close> and \<open>test_accuracy\<close>, holding the accuracy of the fitted model on the
  training and on the test data. At \<open>model.joblib\<close> under the model directory: the dump
  of that fitted model. With no option and no environment variable set the two paths
  are \<open>/opt/ml/output/metrics.json\<close> and \<open>/opt/ml/model/model.joblib\<close>, the path the
  inference application loads from.
\<close>

theorem train_script_outputs:
  assumes "train_script lib environ cl fs = Inr fs'"
  shows "\<exists>m X_train y_train X_test y_test train_preds test_preds train_acc test_acc.
      contents fs' (os_path_join (output_data_dir (parse_args environ cl)) ''metrics.json'') =
        Some (JsonObject [(''train_accuracy'', train_acc), (''test_accuracy'', test_acc)])
    \<and> contents fs' (os_path_join (model_dir (parse_args environ cl)) ''model.joblib'') =
        Some (JoblibDump m)
    \<and> fit lib (n_estimators (parse_args environ cl)) (max_depth (parse_args environ cl))
         (random_state (parse_args environ cl)) X_train y_train = Inr m
    \<and> rf_predict lib m X_train = Inr train_preds
    \<and> rf_predict lib m X_test = Inr test_preds
    \<and> accuracy_score lib y_train train_preds = Inr train_acc
    \<and> accuracy_score lib y_test test_preds = Inr test_acc
    \<and> (opt_output_data_dir cl = None \<and> environ ''SM_OUTPUT_DATA_DIR'' = None \<longrightarrow>
         os_path_join (output_data_dir (parse_args environ cl)) ''metrics.json'' =
           ''/opt/ml/output/metrics.json'')
    \<and> (opt_model_dir cl = None \<and> environ ''SM_MODEL_DIR'' = None \<longrightarrow>
         os_path_join (model_dir (parse_args environ cl)) ''model.joblib'' = model_path)"
proof -
  let ?a = "parse_args environ cl"
  let ?mp = "os_path_join (output_data_dir ?a) ''metrics.json''"
  let ?jp = "os_path_join (model_dir ?a) ''model.joblib''"
  from assms obtain m fs1 where
    tm: "train_model lib fs ?a = Inr (m, fs1)" and
    sm: "save_model fs1 m (model_dir ?a) = Inr fs'"
    unfolding train_script_def Let_def
    by (auto simp add: bind_exn_eq_Inr)
  from train_model_Inr [OF tm] obtain X_train y_train X_test y_test train_preds test_preds
    train_acc test_acc where
    steps: "fit lib (n_estimators ?a) (max_depth ?a) (random_state ?a) X_train y_train = Inr m"
      "rf_predict lib m X_train = Inr train_preds"
      "rf_predict lib m X_test = Inr test_preds"
      "accuracy_score lib y_train train_preds = Inr train_acc"
      "accuracy_score lib y_test test_preds = Inr test_acc" and
    wm: "write_file fs ?mp
      (JsonObject [(''train_accuracy'', train_acc), (''test_accuracy'', test_acc)]) = Inr fs1"
    by blast
  have fs1: "contents fs1 ?mp =
      Some (JsonObject [(''train_accuracy'', train_acc), (''test_accuracy'', test_acc)])"
    using write_file_Inr [OF wm] by simp
  from sm have fs': "fs' = fs1\<lparr>contents := (contents fs1)(?jp \<mapsto> JoblibDump m)\<rparr>"
    unfolding save_model_def Let_def by (rule write_file_Inr)
  have metrics: "contents fs' ?mp =
      Some (JsonObject [(''train_accuracy'', train_acc), (''test_accuracy'', test_acc)])"
    using fs1 fs' output_paths_differ [of "output_data_dir ?a" "model_dir ?a"] by simp
  have artifact: "contents fs' ?jp = Some (JoblibDump m)"
    using fs' by simp
  have dflt_metrics: "?mp = ''/opt/ml/output/metrics.json''"
    if "opt_output_data_dir cl = None" "environ ''SM_OUTPUT_DATA_DIR'' = None"
    using that by (simp add: parse_args_def opt_or_def environ_get_def os_path_join_def)
  have dflt_model: "?jp = model_path"
    if "opt_model_dir cl = None" "environ ''SM_MODEL_DIR'' = None"
    using that
    by (simp add: parse_args_def opt_or_def environ_get_def os_path_join_def model_path_def)
  have "contents fs' ?mp =
        Some (JsonObject [(''train_accuracy'', train_acc), (''test_accuracy'', test_acc)])
    \<and> contents fs' ?jp = Some (JoblibDump m)
    \<and> fit lib (n_estimators ?a) (max_depth ?a) (random_state ?a) X_train y_train = Inr m
    \<and> rf_predict lib m X_train = Inr train_preds
    \<and> rf_predict lib m X_test = Inr test_preds
    \<and> accuracy_score lib y_train train_preds = Inr train_acc
    \<and> accuracy_score lib y_test test_preds = Inr test_acc
    \<and> (opt_output_data_dir cl = None \<and> environ ''SM_OUTPUT_DATA_DIR'' = None \<longrightarrow>
         ?mp = ''/opt/ml/output/metrics.json'')
    \<and> (opt_model_dir cl = None \<and> environ ''SM_MODEL_DIR'' = None \<longrightarrow> ?jp = model_path)"
    using metrics artifact steps dflt_metrics dflt_model by simp
  then show ?thesis by (intro exI)
qed

lemma toy_run:
  "train_script toy_library Map.empty no_options empty_fs = Inr toy_result"
  by (simp add: train_script_def train_model_def load_data_def save_model_def write_file_def
      parse_args_def opt_or_def environ_get_def os_path_join_def no_options_def empty_fs_def
      toy_library_def toy_read_csv_def toy_fit_def toy_accuracy_def toy_result_def)

theorem train_script_outputs_witness:
  "train_script toy_library Map.empty no_options empty_fs = Inr toy_result
   \<and> contents toy_result ''/opt/ml/output/metrics.json'' =
       Some (JsonObject [(''train_accuracy'', 1 / 2), (''test_accuracy'', 0)])
   \<and> contents toy_result ''/opt/ml/model/model.joblib'' = Some (JoblibDump 0)"
proof -
  have none: "opt_output_data_dir no_options = None" "opt_model_dir no_options = None"
    by (simp_all add: no_options_def)
  from train_script_outputs [OF toy_run] none obtain m train_acc test_acc where
    "contents toy_result ''/opt/ml/output/metrics.json'' =
       Some (JsonObject [(''train_accuracy'', train_acc), (''test_accuracy'', test_acc)])"
    "contents toy_result ''/opt/ml/model/model.joblib'' = Some (JoblibDump m)"
    by (auto simp add: model_path_def)
  then show ?thesis
    using toy_run by (simp add: toy_result_def)
qed

end
